theory Spec2Isabelle
  imports Main "HOL-Library.Sublist" "HOL-Library.Multiset"
begin

section \<open>ScanCode results parser: the data model\<close>

text \<open>
  The program (\<^verbatim>\<open>parse_scancode_results.py\<close>) reads a ScanCode JSON report and works on
  the parsed document. The records below give the document the shape the program reads
  from it: a field the program fetches with \<^verbatim>\<open>dict.get\<close> is an \<open>option\<close>, \<open>None\<close> when the
  key is absent. Scores are Python integers (\<open>int\<close>); strings are \<open>string\<close>, and license keys
  are taken to be ASCII, so that \<^verbatim>\<open>str.lower\<close> only touches the letters A to Z.
\<close>

record license_match =
  match_score :: "int option"

record license_detection =
  license_expression :: "string option"
  license_expression_spdx :: "string option"
  matches :: "license_match list option"

record legacy_license =
  lic_key :: "string option"
  lic_name :: "string option"
  lic_score :: "int option"

record file_info =
  path :: "string option"
  scan_errors :: "string list option"
  detected_license_expression :: "string option"
  license_detections :: "license_detection list option"
  licenses :: "legacy_license list option"

text \<open>The parsed document: \<open>files\<close> is \<open>None\<close> when the document has no \<^verbatim>\<open>'files'\<close> key.\<close>

record scan_document =
  files :: "file_info list option"

text \<open>A normalised finding, the dictionary \<^verbatim>\<open>{'key': .., 'name': .., 'score': ..}\<close>.\<close>

record finding =
  key :: string
  name :: string
  score :: int

subsection \<open>Strings\<close>

definition lower_char :: "char \<Rightarrow> char" where
  "lower_char c =
     (let n = (of_char c :: nat) in if 65 \<le> n \<and> n \<le> 90 then char_of (n + 32) else c)"

definition upper_char :: "char \<Rightarrow> char" where
  "upper_char c =
     (let n = (of_char c :: nat) in if 97 \<le> n \<and> n \<le> 122 then char_of (n - 32) else c)"

definition lower :: "string \<Rightarrow> string" where
  "lower s = map lower_char s"

definition upper :: "string \<Rightarrow> string" where
  "upper s = map upper_char s"

text \<open>Python's \<^verbatim>\<open>a in b\<close> on strings: \<open>a\<close> occurs in \<open>b\<close> as a contiguous piece.\<close>

definition str_in :: "string \<Rightarrow> string \<Rightarrow> bool" where
  "str_in a b = sublist a b"

subsection \<open>The license constants and the category table\<close>

definition GPL_2_0 :: string where "GPL_2_0 = ''gpl-2.0''"
definition GPL_3_0 :: string where "GPL_3_0 = ''gpl-3.0''"
definition AGPL_3_0 :: string where "AGPL_3_0 = ''agpl-3.0''"
definition GPL_2_0_PLUS :: string where "GPL_2_0_PLUS = ''gpl-2.0-plus''"
definition GPL_3_0_PLUS :: string where "GPL_3_0_PLUS = ''gpl-3.0-plus''"
definition LGPL_2_1 :: string where "LGPL_2_1 = ''lgpl-2.1''"
definition LGPL_3_0 :: string where "LGPL_3_0 = ''lgpl-3.0''"
definition CC_BY_SA_4_0 :: string where "CC_BY_SA_4_0 = ''cc-by-sa-4.0''"

datatype category = Copyleft | Gpl | Agpl | Commercial_unfriendly | Unknown | Low_confidence

text \<open>
  \<^verbatim>\<open>self.problematic_licenses\<close>, in the order in which the dictionary is written (the order
  in which \<^verbatim>\<open>.items()\<close> yields it). \<open>Low_confidence\<close> has no entry.
\<close>

definition problematic_licenses :: "(category \<times> string list) list" where
  "problematic_licenses =
     [(Gpl, [GPL_2_0, GPL_3_0, GPL_2_0_PLUS, GPL_3_0_PLUS]),
      (Agpl, [AGPL_3_0, GPL_3_0_PLUS]),
      (Copyleft, [GPL_2_0, GPL_3_0, LGPL_2_1, LGPL_3_0, AGPL_3_0]),
      (Commercial_unfriendly, [GPL_2_0, GPL_3_0, AGPL_3_0, CC_BY_SA_4_0]),
      (Unknown, [''unknown'', ''other-permissive'', ''other-copyleft'',
                 ''unknown-license-reference''])]"

section \<open>The finding extractor\<close>

text \<open>
  \<^verbatim>\<open>lic.get('license_expression') or lic.get('license_expression_spdx') or 'unknown'\<close>:
  an absent key and the empty string are both false for \<^verbatim>\<open>or\<close>.
\<close>

definition detection_key :: "license_detection \<Rightarrow> string" where
  "detection_key lic =
     (let alt = (case license_expression_spdx lic of
                   None \<Rightarrow> ''unknown''
                 | Some s \<Rightarrow> if s \<noteq> [] then s else ''unknown'')
      in case license_expression lic of
           None \<Rightarrow> alt
         | Some s \<Rightarrow> if s \<noteq> [] then s else alt)"

text \<open>\<^verbatim>\<open>m.get('score', 100)\<close>\<close>

definition get_match_score :: "license_match \<Rightarrow> int" where
  "get_match_score m = (case match_score m of None \<Rightarrow> 100 | Some s \<Rightarrow> s)"

text \<open>
  Python's \<^verbatim>\<open>max\<close> of a list with first element \<open>m\<close>: the running maximum is replaced
  only by a strictly greater element.
\<close>

fun py_max :: "int \<Rightarrow> int list \<Rightarrow> int" where
  "py_max m [] = m"
| "py_max m (x # xs) = py_max (if x > m then x else m) xs"

text \<open>
  The score of a detection: 100, replaced by the maximum over the matches when
  \<^verbatim>\<open>lic.get('matches')\<close> is true, that is a non-empty list.
\<close>

definition detection_score :: "license_detection \<Rightarrow> int" where
  "detection_score lic =
     (case matches lic of
        None \<Rightarrow> 100
      | Some [] \<Rightarrow> 100
      | Some (m # ms) \<Rightarrow> py_max (get_match_score m) (map get_match_score ms))"

definition detection_finding :: "license_detection \<Rightarrow> finding" where
  "detection_finding lic =
     (let k = detection_key lic in \<lparr>key = k, name = k, score = detection_score lic\<rparr>)"

definition legacy_finding :: "legacy_license \<Rightarrow> finding" where
  "legacy_finding lic =
     (let k = (case lic_key lic of None \<Rightarrow> ''unknown'' | Some s \<Rightarrow> s);
          n = (case lic_name lic of None \<Rightarrow> k | Some s \<Rightarrow> s);
          sc = (case lic_score lic of None \<Rightarrow> 100 | Some s \<Rightarrow> s)
      in \<lparr>key = k, name = n, score = sc\<rparr>)"

text \<open>The two \<^verbatim>\<open>for\<close> loops, each appending to \<^verbatim>\<open>results\<close>.\<close>

fun detections_loop :: "license_detection list \<Rightarrow> finding list \<Rightarrow> finding list" where
  "detections_loop [] results = results"
| "detections_loop (lic # rest) results =
     detections_loop rest (results @ [detection_finding lic])"

fun licenses_loop :: "legacy_license list \<Rightarrow> finding list \<Rightarrow> finding list" where
  "licenses_loop [] results = results"
| "licenses_loop (lic # rest) results = licenses_loop rest (results @ [legacy_finding lic])"

definition extract_licenses_from_file :: "file_info \<Rightarrow> finding list" where
  "extract_licenses_from_file fi =
     (let results0 = [];
          results1 = (case detected_license_expression fi of
                        None \<Rightarrow> results0
                      | Some expr \<Rightarrow>
                          if expr \<noteq> [] then results0 @ [\<lparr>key = expr, name = expr, score = 100\<rparr>]
                          else results0);
          results2 = detections_loop
                       (case license_detections fi of None \<Rightarrow> [] | Some ds \<Rightarrow> ds) results1
      in licenses_loop (case licenses fi of None \<Rightarrow> [] | Some ls \<Rightarrow> ls) results2)"

section \<open>The license tally\<close>

text \<open>
  The dictionaries \<^verbatim>\<open>{'file': .., 'name': .., 'score': ..}\<close> stored in the tally and, later,
  in the problem lists
  (\<open>entry_file\<close> is the key \<^verbatim>\<open>'file'\<close>).
\<close>

record entry =
  entry_file :: string
  entry_name :: string
  entry_score :: int

text \<open>
  \<^verbatim>\<open>license_stats\<close> (a \<^verbatim>\<open>defaultdict(list)\<close>) and \<^verbatim>\<open>all_licenses\<close> (a \<^verbatim>\<open>Counter\<close>) are
  dictionaries that keep their keys in the order of first insertion: association lists.
\<close>

type_synonym license_stats = "(string \<times> entry list) list"

type_synonym counter = "(string \<times> nat) list"

text \<open>\<^verbatim>\<open>all_licenses[key] += 1\<close>\<close>

fun counter_incr :: "string \<Rightarrow> counter \<Rightarrow> counter" where
  "counter_incr k [] = [(k, 1)]"
| "counter_incr k ((k', n) # rest) =
     (if k = k' then (k', n + 1) # rest else (k', n) # counter_incr k rest)"

text \<open>\<^verbatim>\<open>license_stats[key].append(e)\<close>\<close>

fun stats_append :: "string \<Rightarrow> entry \<Rightarrow> license_stats \<Rightarrow> license_stats" where
  "stats_append k e [] = [(k, [e])]"
| "stats_append k e ((k', es) # rest) =
     (if k = k' then (k', es @ [e]) # rest else (k', es) # stats_append k e rest)"

definition process_license_detection ::
  "finding \<Rightarrow> string \<Rightarrow> license_stats \<times> counter \<Rightarrow> license_stats \<times> counter" where
  "process_license_detection lic_info file_path tally =
     (case tally of (license_stats, all_licenses) \<Rightarrow>
        (stats_append (key lic_info)
           \<lparr>entry_file = file_path, entry_name = name lic_info, entry_score = score lic_info\<rparr>
           license_stats,
         counter_incr (key lic_info) all_licenses))"

text \<open>\<^verbatim>\<open>file_info.get('path', 'Unknown')\<close>\<close>

definition get_path :: "file_info \<Rightarrow> string" where
  "get_path fi = (case path fi of None \<Rightarrow> ''Unknown'' | Some p \<Rightarrow> p)"

fun tally_findings ::
  "finding list \<Rightarrow> string \<Rightarrow> license_stats \<times> counter \<Rightarrow> license_stats \<times> counter" where
  "tally_findings [] file_path tally = tally"
| "tally_findings (lic # rest) file_path tally =
     tally_findings rest file_path (process_license_detection lic file_path tally)"

fun tally_files :: "file_info list \<Rightarrow> license_stats \<times> counter \<Rightarrow> license_stats \<times> counter" where
  "tally_files [] tally = tally"
| "tally_files (fi # rest) tally =
     tally_files rest (tally_findings (extract_licenses_from_file fi) (get_path fi) tally)"

definition analyze_licenses :: "scan_document \<Rightarrow> license_stats \<times> counter" where
  "analyze_licenses data =
     (case files data of None \<Rightarrow> ([], []) | Some fs \<Rightarrow> tally_files fs ([], []))"

section \<open>The problem classifier\<close>

text \<open>
  A problem set is a Python \<^verbatim>\<open>set\<close> of tuples \<^verbatim>\<open>(file_path, license_key, score)\<close>. It is
  modelled by the list of its members, without repetition; \<open>set_add\<close> is \<^verbatim>\<open>set.add\<close>.
  The program never reads the order of this list: the only way it looks into a set is
  the \<^verbatim>\<open>for\<close> loop of \<^verbatim>\<open>_convert_problem_sets_to_list\<close>, and the order in which CPython
  iterates a set of tuples of strings follows the hash values of the members, which the
  program does not fix (string hashes are salted per process). That order is therefore
  a parameter of the model, \<open>set_iter\<close>: the function that lists the members of a set in
  the order of iteration.
\<close>

type_synonym triple = "string \<times> string \<times> int"

type_synonym problem_sets = "category \<Rightarrow> triple list"

type_synonym problems = "category \<Rightarrow> entry list"

definition set_add :: "'a \<Rightarrow> 'a list \<Rightarrow> 'a list" where
  "set_add x xs = (if x \<in> set xs then xs else xs @ [x])"

text \<open>An admissible iteration order lists exactly the members, each as often as it occurs.\<close>

definition iter_ok :: "(triple list \<Rightarrow> triple list) \<Rightarrow> bool" where
  "iter_ok it = (\<forall>xs. mset (it xs) = mset xs)"

text \<open>The keys of the dictionaries \<^verbatim>\<open>problems\<close> and \<^verbatim>\<open>problem_sets\<close>, in their order.\<close>

definition problem_keys :: "category list" where
  "problem_keys = [Copyleft, Gpl, Agpl, Commercial_unfriendly, Unknown, Low_confidence]"

fun category_name :: "category \<Rightarrow> string" where
  "category_name Copyleft = ''copyleft''"
| "category_name Gpl = ''gpl''"
| "category_name Agpl = ''agpl''"
| "category_name Commercial_unfriendly = ''commercial_unfriendly''"
| "category_name Unknown = ''unknown''"
| "category_name Low_confidence = ''low_confidence''"

text \<open>The loop over \<^verbatim>\<open>self.problematic_licenses.items()\<close>.\<close>

fun add_categories ::
  "(category \<times> string list) list \<Rightarrow> string \<Rightarrow> triple \<Rightarrow> problem_sets \<Rightarrow> problem_sets" where
  "add_categories [] license_key t problem_sets = problem_sets"
| "add_categories ((category, license_list) # rest) license_key t problem_sets =
     add_categories rest license_key t
       (if list_ex (\<lambda>problem_license. str_in problem_license (lower license_key)) license_list
        then problem_sets(category := set_add t (problem_sets category))
        else problem_sets)"

definition add_to_problem_sets ::
  "problem_sets \<Rightarrow> string \<Rightarrow> string \<Rightarrow> int \<Rightarrow> problem_sets" where
  "add_to_problem_sets problem_sets license_key file_path score' =
     (let ps = add_categories problematic_licenses license_key
                 (file_path, license_key, score') problem_sets
      in if score' < 70
         then ps(Low_confidence := set_add (file_path, license_key, score') (ps Low_confidence))
         else ps)"

fun classify_detections :: "string \<Rightarrow> entry list \<Rightarrow> problem_sets \<Rightarrow> problem_sets" where
  "classify_detections license_key [] problem_sets = problem_sets"
| "classify_detections license_key (detection_info # rest) problem_sets =
     classify_detections license_key rest
       (add_to_problem_sets problem_sets license_key (entry_file detection_info)
          (entry_score detection_info))"

fun classify_stats :: "license_stats \<Rightarrow> problem_sets \<Rightarrow> problem_sets" where
  "classify_stats [] problem_sets = problem_sets"
| "classify_stats ((license_key, file_detections) # rest) problem_sets =
     classify_stats rest (classify_detections license_key file_detections problem_sets)"

definition triple_entry :: "triple \<Rightarrow> entry" where
  "triple_entry t =
     (case t of (file_path, license_key, score') \<Rightarrow>
        \<lparr>entry_file = file_path, entry_name = license_key, entry_score = score'\<rparr>)"

text \<open>The inner loop of \<^verbatim>\<open>_convert_problem_sets_to_list\<close>, over the set in iteration order.\<close>

fun append_entries :: "triple list \<Rightarrow> entry list \<Rightarrow> entry list" where
  "append_entries [] acc = acc"
| "append_entries (t # rest) acc = append_entries rest (acc @ [triple_entry t])"

definition convert_problem_sets_to_list ::
  "(triple list \<Rightarrow> triple list) \<Rightarrow> problem_sets \<Rightarrow> problems" where
  "convert_problem_sets_to_list set_iter problem_sets =
     (\<lambda>category. append_entries (set_iter (problem_sets category)) [])"

text \<open>\<^verbatim>\<open>{key: set() for key in problems.keys()}\<close>\<close>

definition empty_problem_sets :: problem_sets where
  "empty_problem_sets = (\<lambda>category. [])"

definition identify_problematic_licenses ::
  "(triple list \<Rightarrow> triple list) \<Rightarrow> license_stats \<Rightarrow> problems" where
  "identify_problematic_licenses set_iter license_stats =
     convert_problem_sets_to_list set_iter (classify_stats license_stats empty_problem_sets)"

text \<open>
  The rule of the classifier in the words of the specification, to compare the loops
  with: a finding belongs to a category with a fragment list when some fragment of the
  list occurs in its lower-case key, and to \<open>Low_confidence\<close> when its score is below 70.
\<close>

definition in_category :: "category \<Rightarrow> string \<Rightarrow> int \<Rightarrow> bool" where
  "in_category c license_key sc =
     (if c = Low_confidence then sc < 70
      else list_ex (\<lambda>(c', ls). c' = c \<and>
                      list_ex (\<lambda>fragment. str_in fragment (lower license_key)) ls)
             problematic_licenses)"


section \<open>The issue scanner\<close>

datatype details = Scan_errors "string list" | Text string

record issue =
  issue_file :: string
  issue_type :: string
  issue_details :: details

function show_nat :: "nat \<Rightarrow> string" where
  "show_nat n =
     (if n < 10 then [char_of (48 + n)] else show_nat (n div 10) @ [char_of (48 + n mod 10)])"
  by pat_completeness auto
termination
  by (relation "measure (\<lambda>n. n)") auto

declare show_nat.simps [simp del]

definition show_int :: "int \<Rightarrow> string" where
  "show_int i = (if i < 0 then ''-'' @ show_nat (nat (- i)) else show_nat (nat i))"

fun low_confidence_loop :: "finding list \<Rightarrow> string \<Rightarrow> issue list \<Rightarrow> issue list" where
  "low_confidence_loop [] file_path issues = issues"
| "low_confidence_loop (lic # rest) file_path issues =
     low_confidence_loop rest file_path
       (if score lic < 50
        then issues @ [\<lparr>issue_file = file_path, issue_type = ''low_confidence_license'',
                         issue_details =
                           Text (''License: '' @ key lic @ '', Score: '' @ show_int (score lic))\<rparr>]
        else issues)"

text \<open>
  One iteration of the loop over the files: \<^verbatim>\<open>file_info.get('scan_errors')\<close> is true for a
  non-empty list.
\<close>

definition file_issues :: "file_info \<Rightarrow> issue list \<Rightarrow> issue list" where
  "file_issues fi issues =
     (let file_path = get_path fi;
          issues1 = (case scan_errors fi of
                       None \<Rightarrow> issues
                     | Some [] \<Rightarrow> issues
                     | Some (e # es) \<Rightarrow>
                         issues @ [\<lparr>issue_file = file_path, issue_type = ''scan_error'',
                                    issue_details = Scan_errors (e # es)\<rparr>])
      in low_confidence_loop (extract_licenses_from_file fi) file_path issues1)"

fun issues_loop :: "file_info list \<Rightarrow> issue list \<Rightarrow> issue list" where
  "issues_loop [] issues = issues"
| "issues_loop (fi # rest) issues = issues_loop rest (file_issues fi issues)"

text \<open>
  Standard output is the list of the texts printed, one element for each call of
  \<^verbatim>\<open>print\<close>. Characters outside ASCII are written as their UTF-8 bytes.
\<close>

type_synonym stdout = "string list"

definition print :: "string \<Rightarrow> stdout \<Rightarrow> stdout" where
  "print s out = out @ [s]"

definition cross_mark :: string where
  "cross_mark = [CHR 0xE2, CHR 0x9D, CHR 0x8C]"

definition check_mark :: string where
  "check_mark = [CHR 0xE2, CHR 0x9C, CHR 0x85]"

text \<open>
  \<^verbatim>\<open>get_files_with_issues\<close> returns the issues and prints one line when there is no
  \<^verbatim>\<open>'files'\<close> key. For a dictionary, \<^verbatim>\<open>not self.data or 'files' not in self.data\<close> is true
  exactly when that key is absent.
\<close>

definition get_files_with_issues :: "scan_document \<Rightarrow> stdout \<Rightarrow> issue list \<times> stdout" where
  "get_files_with_issues data out =
     (case files data of
        None \<Rightarrow> ([], print (cross_mark @ '' No 'files' section found in JSON'') out)
      | Some fs \<Rightarrow> (issues_loop fs [], out))"

section \<open>The report renderer\<close>

definition magnifying_glass :: string where
  "magnifying_glass = [CHR 0xF0, CHR 0x9F, CHR 0x94, CHR 0x8D]"

definition file_folder :: string where
  "file_folder = [CHR 0xF0, CHR 0x9F, CHR 0x93, CHR 0x81]"

definition calendar :: string where
  "calendar = [CHR 0xF0, CHR 0x9F, CHR 0x93, CHR 0x85]"

definition bar_chart :: string where
  "bar_chart = [CHR 0xF0, CHR 0x9F, CHR 0x93, CHR 0x8A]"

definition clipboard :: string where
  "clipboard = [CHR 0xF0, CHR 0x9F, CHR 0x93, CHR 0x8B]"

definition trophy :: string where
  "trophy = [CHR 0xF0, CHR 0x9F, CHR 0x8F, CHR 0x86]"

definition warning_sign :: string where
  "warning_sign = [CHR 0xE2, CHR 0x9A, CHR 0xA0, CHR 0xEF, CHR 0xB8, CHR 0x8F]"

definition revolving_light :: string where
  "revolving_light = [CHR 0xF0, CHR 0x9F, CHR 0x9A, CHR 0xA8]"

definition light_bulb :: string where
  "light_bulb = [CHR 0xF0, CHR 0x9F, CHR 0x92, CHR 0xA1]"

definition red_circle :: string where
  "red_circle = [CHR 0xF0, CHR 0x9F, CHR 0x94, CHR 0xB4]"

definition yellow_circle :: string where
  "yellow_circle = [CHR 0xF0, CHR 0x9F, CHR 0x9F, CHR 0xA1]"

definition page_facing_up :: string where
  "page_facing_up = [CHR 0xF0, CHR 0x9F, CHR 0x93, CHR 0x84]"

text \<open>The format specifications \<^verbatim>\<open>{s:30}\<close> (a string, padded on the right) and \<^verbatim>\<open>{n:4}\<close>
  (a number, padded on the left).\<close>

definition ljust :: "nat \<Rightarrow> string \<Rightarrow> string" where
  "ljust w s = s @ replicate (w - length s) (CHR '' '')"

definition rjust :: "nat \<Rightarrow> string \<Rightarrow> string" where
  "rjust w s = replicate (w - length s) (CHR '' '') @ s"

text \<open>\<^verbatim>\<open>s.replace('_', ' ')\<close>\<close>

definition replace_underscore :: "string \<Rightarrow> string" where
  "replace_underscore s = map (\<lambda>c. if c = CHR ''_'' then CHR '' '' else c) s"

text \<open>\<open>print_report_header\<close> gets the text of \<^verbatim>\<open>datetime.now().strftime(..)\<close> as \<open>now\<close>.\<close>

definition print_report_header :: "string \<Rightarrow> string \<Rightarrow> stdout \<Rightarrow> stdout" where
  "print_report_header json_file now out =
     (let out = print (replicate 80 (CHR ''='')) out;
          out = print (magnifying_glass @ '' SCANCODE LICENSE ANALYSIS REPORT'') out;
          out = print (replicate 80 (CHR ''='')) out;
          out = print (file_folder @ '' Analyzed file: '' @ json_file) out;
          out = print (calendar @ '' Generated on: '' @ now) out
      in print [] out)"

text \<open>\<^verbatim>\<open>len(self.data.get('files', []) if self.data else [])\<close>\<close>

definition count_files :: "scan_document \<Rightarrow> nat" where
  "count_files data = length (case files data of None \<Rightarrow> [] | Some fs \<Rightarrow> fs)"

definition print_basic_statistics :: "scan_document \<Rightarrow> issue list \<Rightarrow> stdout \<Rightarrow> stdout" where
  "print_basic_statistics data issues out =
     (let total_files = count_files data;
          out = print (bar_chart @ '' BASIC STATISTICS'') out;
          out = print (''   Total files scanned: '' @ show_nat total_files) out;
          out = (if issues \<noteq> [] then
                   print (''   Files with low confidence licenses: '' @
                          show_nat (length (filter (\<lambda>i. issue_type i = ''low_confidence_license'')
                                              issues)))
                     (print (''   Files with scan errors: '' @
                             show_nat (length (filter (\<lambda>i. issue_type i = ''scan_error'') issues)))
                        out)
                 else out)
      in print [] out)"

text \<open>
  \<^verbatim>\<open>Counter.most_common(n)\<close>: the items by decreasing count, items of equal count in the
  order of the counter, cut after \<open>n\<close>.
\<close>

fun insert_desc :: "string \<times> nat \<Rightarrow> counter \<Rightarrow> counter" where
  "insert_desc x [] = [x]"
| "insert_desc x (y # ys) = (if snd y > snd x then y # insert_desc x ys else x # y # ys)"

definition most_common :: "nat \<Rightarrow> counter \<Rightarrow> counter" where
  "most_common n c = take n (foldr insert_desc c [])"

fun print_top :: "counter \<Rightarrow> stdout \<Rightarrow> stdout" where
  "print_top [] out = out"
| "print_top ((license_key, count') # rest) out =
     print_top rest
       (print (''   '' @ ljust 30 license_key @ '' : '' @ rjust 4 (show_nat count') @ '' files'')
          out)"

definition print_license_summary :: "counter \<Rightarrow> stdout \<Rightarrow> stdout" where
  "print_license_summary all_licenses out =
     (let out = print (clipboard @ '' LICENSE SUMMARY'') out;
          out = print (''   Unique licenses detected: '' @ show_nat (length all_licenses)) out;
          out = print (''   Total license detections: '' @
                       show_nat (sum_list (map snd all_licenses))) out;
          out = print [] out;
          out = print (trophy @ '' TOP 10 MOST COMMON LICENSES'') out;
          out = print_top (most_common 10 all_licenses) out
      in print [] out)"

text \<open>The loop over \<^verbatim>\<open>issue_list[:5]\<close>: two lines for each example.\<close>

fun print_examples :: "entry list \<Rightarrow> stdout \<Rightarrow> stdout" where
  "print_examples [] out = out"
| "print_examples (issue # rest) out =
     print_examples rest
       (print (''        License: '' @ entry_name issue @ '' (Score: '' @
               show_int (entry_score issue) @ '')'')
          (print (''      - '' @ entry_file issue) out))"

text \<open>The body of the loop over \<^verbatim>\<open>problems.items()\<close>, for one category.\<close>

definition print_category :: "category \<Rightarrow> entry list \<Rightarrow> stdout \<Rightarrow> stdout" where
  "print_category category issue_list out =
     (if issue_list \<noteq> [] then
        (let out = print (CHR 0x0A # ''   '' @ revolving_light @ '' '' @
                          replace_underscore (upper (category_name category)) @
                          '' LICENSES ('' @ show_nat (length issue_list) @ '' files):'') out;
             out = print_examples (take 5 issue_list) out
         in if length issue_list > 5
            then print (''      ... and '' @ show_nat (length issue_list - 5) @ '' more files'') out
            else out)
      else out)"

fun print_categories :: "category list \<Rightarrow> problems \<Rightarrow> stdout \<Rightarrow> stdout" where
  "print_categories [] problems out = out"
| "print_categories (category # rest) problems out =
     print_categories rest problems (print_category category (problems category) out)"

definition print_potential_issues :: "problems \<Rightarrow> stdout \<Rightarrow> stdout" where
  "print_potential_issues problems out =
     (let out = print (warning_sign @ ''  POTENTIAL LICENSE ISSUES'') out;
          out = print (replicate 40 (CHR ''-'')) out;
          total_issues = sum_list (map (\<lambda>c. length (problems c)) problem_keys);
          out = (if total_issues = 0
                 then print (''   '' @ check_mark @ '' No major license issues detected!'') out
                 else print_categories problem_keys problems out)
      in print [] out)"

text \<open>
  \<open>repr_list\<close> is Python's \<^verbatim>\<open>str\<close> of a list of strings, which \<^verbatim>\<open>_print_scan_errors\<close> prints
  for the details of a scan error; it is a parameter.
\<close>

definition show_details :: "(string list \<Rightarrow> string) \<Rightarrow> details \<Rightarrow> string" where
  "show_details repr_list d = (case d of Scan_errors es \<Rightarrow> repr_list es | Text s \<Rightarrow> s)"

fun print_errors :: "(string list \<Rightarrow> string) \<Rightarrow> issue list \<Rightarrow> stdout \<Rightarrow> stdout" where
  "print_errors repr_list [] out = out"
| "print_errors repr_list (error # rest) out =
     print_errors repr_list rest
       (print []
          (print (''   Error: '' @ show_details repr_list (issue_details error))
             (print (''   '' @ issue_file error) out)))"

definition print_scan_errors :: "(string list \<Rightarrow> string) \<Rightarrow> issue list \<Rightarrow> stdout \<Rightarrow> stdout" where
  "print_scan_errors repr_list issues out =
     (let scan_errors = filter (\<lambda>i. issue_type i = ''scan_error'') issues
      in if scan_errors \<noteq> [] then
           (let out = print (cross_mark @ '' FILES WITH SCAN ERRORS'') out;
                out = print (replicate 40 (CHR ''-'')) out
            in print_errors repr_list (take 10 scan_errors) out)
         else out)"

definition print_recommendations :: "problems \<Rightarrow> stdout \<Rightarrow> stdout" where
  "print_recommendations problems out =
     (let out = print (light_bulb @ '' RECOMMENDATIONS'') out;
          out = print (replicate 40 (CHR ''-'')) out;
          gpl_files = length (problems Gpl);
          agpl_files = length (problems Agpl);
          unknown_files = length (problems Unknown);
          out = (if gpl_files > 0 then
                   print ''      - Consider alternative implementations for critical files''
                     (print ''      - Review if GPL compatibility is acceptable for your project''
                        (print (''   '' @ red_circle @ '' '' @ show_nat gpl_files @
                                '' files with GPL licenses detected'') out))
                 else out);
          out = (if agpl_files > 0 then
                   print ''      - Avoid AGPL code in web services/SaaS applications''
                     (print ''      - AGPL has network copyleft requirements''
                        (print (''   '' @ red_circle @ '' '' @ show_nat agpl_files @
                                '' files with AGPL licenses detected'') out))
                 else out);
          out = (if unknown_files > 0 then
                   print ''      - Contact original authors for clarification''
                     (print ''      - Manual review required for these files''
                        (print (''   '' @ yellow_circle @ '' '' @ show_nat unknown_files @
                                '' files with unknown/unclear licenses'') out))
                 else out);
          low_confidence = length (problems Low_confidence);
          out = (if low_confidence > 0 then
                   print ''      - Check original source for accurate license information''
                     (print ''      - Manual verification recommended''
                        (print (''   '' @ yellow_circle @ '' '' @ show_nat low_confidence @
                                '' files with low confidence license detection'') out))
                 else out)
      in print (CHR 0x0A # replicate 80 (CHR ''='')) out)"

section \<open>The detailed exporter\<close>

record recommendation =
  severity :: string
  rec_category :: string
  message :: string
  affected_files :: nat

record metadata =
  source_file :: string
  analysis_date :: string
  total_files :: nat
  total_licenses :: nat
  total_license_detections :: nat

text \<open>
  The dictionary \<^verbatim>\<open>detailed_report\<close>. \<open>report_problems\<close> is its entry
  \<^verbatim>\<open>'problematic_licenses'\<close>: the dictionary \<^verbatim>\<open>problems\<close>, as the list of its items in
  the order of its keys.
\<close>

record detailed_report =
  report_metadata :: metadata
  license_statistics :: counter
  report_problems :: "(category \<times> entry list) list"
  scan_issues :: "issue list"
  recommendations :: "recommendation list"

definition generate_recommendations :: "problems \<Rightarrow> recommendation list" where
  "generate_recommendations problems =
     (let recs = [];
          recs = (if problems Gpl \<noteq> [] then
                    recs @ [\<lparr>severity = ''high'', rec_category = ''gpl'',
                             message = ''GPL licenses detected. Review compatibility with your project license.'',
                             affected_files = length (problems Gpl)\<rparr>]
                  else recs);
          recs = (if problems Agpl \<noteq> [] then
                    recs @ [\<lparr>severity = ''critical'', rec_category = ''agpl'',
                             message = ''AGPL licenses detected. Network copyleft requirements apply.'',
                             affected_files = length (problems Agpl)\<rparr>]
                  else recs);
          recs = (if problems Unknown \<noteq> [] then
                    recs @ [\<lparr>severity = ''medium'', rec_category = ''unknown'',
                             message = ''Unknown licenses detected. Manual review required.'',
                             affected_files = length (problems Unknown)\<rparr>]
                  else recs)
      in recs)"

section \<open>The program\<close>

text \<open>
  What a run takes from outside the program text: the order in which a set is iterated,
  the two texts of the clock (\<^verbatim>\<open>strftime\<close> for the report, \<^verbatim>\<open>isoformat\<close> for the export),
  Python's \<^verbatim>\<open>str\<close> of a list of strings, and the JSON library: \<open>json_load\<close> gives the parsed
  document or, for a text that is not JSON, the message of the \<^verbatim>\<open>JSONDecodeError\<close>;
  \<open>json_dump\<close> is the text written for a report.
\<close>

record runtime =
  set_iter :: "triple list \<Rightarrow> triple list"
  strftime_now :: string
  isoformat_now :: string
  repr_list :: "string list \<Rightarrow> string"
  json_load :: "string \<Rightarrow> string + scan_document"
  json_dump :: "detailed_report \<Rightarrow> string"

text \<open>
  The state a run works on: what it has printed, and the files on disk (a map from
  paths to contents; a path outside the domain does not exist). A path on the disk is
  a file that can be read, and writing the output file succeeds: directories and
  permissions are not part of the model.
\<close>

record world =
  printed :: stdout
  disk :: "string \<rightharpoonup> string"

definition generate_report :: "runtime \<Rightarrow> string \<Rightarrow> scan_document \<Rightarrow> stdout \<Rightarrow> stdout" where
  "generate_report rt json_file data out =
     (let out = print_report_header json_file (strftime_now rt) out;
          (issues, out) = get_files_with_issues data out;
          out = print_basic_statistics data issues out;
          (license_stats, all_licenses) = analyze_licenses data;
          out = print_license_summary all_licenses out;
          problems = identify_problematic_licenses (set_iter rt) license_stats;
          out = print_potential_issues problems out;
          out = print_scan_errors (repr_list rt) issues out
      in print_recommendations problems out)"

text \<open>The dictionary that \<^verbatim>\<open>export_detailed_report\<close> builds and dumps.\<close>

definition build_detailed_report ::
  "runtime \<Rightarrow> string \<Rightarrow> scan_document \<Rightarrow> issue list \<Rightarrow> detailed_report" where
  "build_detailed_report rt json_file data issues =
     (let (license_stats, all_licenses) = analyze_licenses data;
          problems = identify_problematic_licenses (set_iter rt) license_stats
      in \<lparr>report_metadata =
            \<lparr>source_file = json_file,
             analysis_date = isoformat_now rt,
             total_files = count_files data,
             total_licenses = length all_licenses,
             total_license_detections = sum_list (map snd all_licenses)\<rparr>,
          license_statistics = all_licenses,
          report_problems = map (\<lambda>c. (c, problems c)) problem_keys,
          scan_issues = issues,
          recommendations = generate_recommendations problems\<rparr>)"

definition export_detailed_report ::
  "runtime \<Rightarrow> string \<Rightarrow> scan_document \<Rightarrow> string \<Rightarrow> world \<Rightarrow> world" where
  "export_detailed_report rt json_file data output_file w =
     (let (issues, out) = get_files_with_issues data (printed w);
          detailed_report = build_detailed_report rt json_file data issues;
          disk' = (disk w)(output_file \<mapsto> json_dump rt detailed_report)
      in \<lparr>printed = print (page_facing_up @ '' Detailed report exported to: '' @ output_file) out,
          disk = disk'\<rparr>)"

text \<open>
  \<^verbatim>\<open>load_data\<close>, called by the constructor: \<open>Inl\<close> is \<^verbatim>\<open>sys.exit\<close> with its status, \<open>Inr\<close> the
  loaded document.
\<close>

definition load_data :: "runtime \<Rightarrow> string \<Rightarrow> world \<Rightarrow> (nat \<times> world) + (scan_document \<times> world)" where
  "load_data rt json_file w =
     (case disk w json_file of
        None \<Rightarrow>
          Inl (1, w\<lparr>printed := print (cross_mark @ '' Error: File '' @ json_file @ '' not found'')
                                  (printed w)\<rparr>)
      | Some text \<Rightarrow>
          (case json_load rt text of
             Inl e \<Rightarrow>
               Inl (1, w\<lparr>printed := print (cross_mark @ '' Error parsing JSON: '' @ e)
                                       (printed w)\<rparr>)
           | Inr data \<Rightarrow>
               Inr (data, w\<lparr>printed := print (check_mark @ '' Successfully loaded '' @ json_file)
                                          (printed w)\<rparr>)))"

text \<open>
  \<^verbatim>\<open>main\<close>, with \<^verbatim>\<open>sys.argv\<close> as \<open>argv\<close>: the exit status of the process and the world it
  leaves. \<^verbatim>\<open>os.path.exists\<close> is membership in the domain of the disk.
\<close>

definition main :: "runtime \<Rightarrow> string list \<Rightarrow> world \<Rightarrow> nat \<times> world" where
  "main rt argv w =
     (if length argv \<noteq> 2 then
        (1, w\<lparr>printed :=
                 print ''python parse_scancode_results.py hwid_go_server_analysis.json''
                   (print (CHR 0x0A # ''Example:'')
                      (print ''Usage: python parse_scancode_results.py <scancode_results.json>''
                         (printed w)))\<rparr>)
      else
        (let json_file = argv ! 1 in
         if disk w json_file = None then
           (1, w\<lparr>printed := print (cross_mark @ '' Error: File '' @ json_file @ '' does not exist'')
                                (printed w)\<rparr>)
         else
           (case load_data rt json_file w of
              Inl exit \<Rightarrow> exit
            | Inr (data, w) \<Rightarrow>
                (let w = w\<lparr>printed := generate_report rt json_file data (printed w)\<rparr>;
                     w = export_detailed_report rt json_file data
                           ''license_analysis_detailed.json'' w
                 in (0, w)))))"

section \<open>Example inputs\<close>



text \<open>The text \<^verbatim>\<open>{"files": []}\<close>.\<close>

definition empty_files_text :: string where
  "empty_files_text = ''{'' @ [CHR 0x22] @ ''files'' @ [CHR 0x22] @ '': []}''"

text \<open>
  A runtime for the examples: sets are iterated in the order of insertion, and the JSON
  reader knows the one text above.
\<close>

definition example_runtime :: runtime where
  "example_runtime =
     \<lparr>set_iter = id,
      strftime_now = ''2024-01-01 12:00:00'',
      isoformat_now = ''2024-01-01T12:00:01.000000'',
      repr_list = (\<lambda>es. ''['' @ concat (map (\<lambda>e. [CHR 0x27] @ e @ [CHR 0x27]) es) @ '']''),
      json_load = (\<lambda>text. if text = empty_files_text then Inr \<lparr>files = Some []\<rparr>
                          else Inl ''Expecting value: line 1 column 1 (char 0)''),
      json_dump = (\<lambda>report. ''{}'')\<rparr>"

section \<open>Properties of the finding extractor\<close>

lemma detections_loop_append: "detections_loop ds results = results @ map detection_finding ds"
  by (induction ds arbitrary: results) simp_all

lemma licenses_loop_append: "licenses_loop ls results = results @ map legacy_finding ls"
  by (induction ls arbitrary: results) simp_all

text \<open>
  C3. For every file record, the finding extractor returns the concatenation, in this
  order, of: one finding with score 100 for a top-level expression that is present and
  not empty; one finding for each detection object; one finding for each legacy license
  object. Nothing is removed, so a key present in several shapes occurs several times.
  A record with none of the three fields gives the empty list.
\<close>

theorem extract_licenses_concat:
  "extract_licenses_from_file fi =
     (case detected_license_expression fi of
        None \<Rightarrow> []
      | Some expr \<Rightarrow> if expr \<noteq> [] then [\<lparr>key = expr, name = expr, score = 100\<rparr>] else [])
     @ map detection_finding (case license_detections fi of None \<Rightarrow> [] | Some ds \<Rightarrow> ds)
     @ map legacy_finding (case licenses fi of None \<Rightarrow> [] | Some ls \<Rightarrow> ls)
   \<and> (detected_license_expression fi = None \<and> license_detections fi = None \<and> licenses fi = None
        \<longrightarrow> extract_licenses_from_file fi = [])"
  by (simp add: extract_licenses_from_file_def detections_loop_append licenses_loop_append
      split: option.splits)

theorem extract_licenses_concat_witness:
  "extract_licenses_from_file
     \<lparr>path = Some ''src/a.c'', scan_errors = None, detected_license_expression = None,
      license_detections = None, licenses = None\<rparr> = []
   \<and> extract_licenses_from_file
     \<lparr>path = Some ''src/a.c'', scan_errors = None, detected_license_expression = Some ''mit'',
      license_detections =
        Some [\<lparr>license_expression = Some ''mit'', license_expression_spdx = None,
               matches = None\<rparr>],
      licenses = Some [\<lparr>lic_key = Some ''mit'', lic_name = Some ''MIT License'', lic_score = None\<rparr>]\<rparr>
     = [\<lparr>key = ''mit'', name = ''mit'', score = 100\<rparr>,
        \<lparr>key = ''mit'', name = ''mit'', score = 100\<rparr>,
        \<lparr>key = ''mit'', name = ''MIT License'', score = 100\<rparr>]"
  using extract_licenses_concat [of "\<lparr>path = Some ''src/a.c'', scan_errors = None,
      detected_license_expression = None, license_detections = None, licenses = None\<rparr>"]
    extract_licenses_concat [of "\<lparr>path = Some ''src/a.c'', scan_errors = None,
      detected_license_expression = Some ''mit'',
      license_detections =
        Some [\<lparr>license_expression = Some ''mit'', license_expression_spdx = None,
               matches = None\<rparr>],
      licenses = Some [\<lparr>lic_key = Some ''mit'', lic_name = Some ''MIT License'', lic_score = None\<rparr>]\<rparr>"]
  by (simp add: detection_finding_def detection_key_def detection_score_def legacy_finding_def
      Let_def)

text \<open>Python's \<^verbatim>\<open>max\<close> is the maximum of the set of elements.\<close>

lemma py_max_Max: "py_max m xs = Max (set (m # xs))"
proof (induction xs arbitrary: m)
  case Nil
  show ?case by simp
next
  case (Cons x xs)
  have "py_max m (x # xs) = Max (set (max m x # xs))"
    by (simp add: Cons.IH max_def)
  also have "\<dots> = Max (set (m # x # xs))"
    by (cases "xs = []") (simp_all add: max.assoc)
  finally show ?case .
qed

text \<open>
  C4. The score of the finding made from a detection object is the maximum of the scores
  of its match entries, a match without a score counting as 100, and it is 100 when the
  detection has no matches (the field is absent or the list is empty). The matches
  \<^verbatim>\<open>[{score: 40}, {score: 90}]\<close> give 90.
\<close>

theorem detection_score_max:
  "score (detection_finding lic) =
     (case matches lic of
        None \<Rightarrow> 100
      | Some ms \<Rightarrow>
          if ms = [] then 100
          else Max ((\<lambda>m. case match_score m of None \<Rightarrow> 100 | Some s \<Rightarrow> s) ` set ms))"
proof (cases "matches lic")
  case None
  then show ?thesis by (simp add: detection_finding_def detection_score_def Let_def)
next
  case (Some ms)
  show ?thesis
  proof (cases ms)
    case Nil
    with Some show ?thesis by (simp add: detection_finding_def detection_score_def Let_def)
  next
    case (Cons m rest)
    with Some show ?thesis
      by (simp add: detection_finding_def detection_score_def py_max_Max Let_def
          get_match_score_def [abs_def])
  qed
qed

theorem detection_score_max_witness:
  "score (detection_finding
      \<lparr>license_expression = Some ''mit'', license_expression_spdx = None,
       matches = Some [\<lparr>match_score = Some 40\<rparr>, \<lparr>match_score = Some 90\<rparr>]\<rparr>) = 90
   \<and> score (detection_finding
      \<lparr>license_expression = Some ''mit'', license_expression_spdx = None,
       matches = Some [\<lparr>match_score = Some 40\<rparr>, \<lparr>match_score = None\<rparr>]\<rparr>) = 100
   \<and> score (detection_finding
      \<lparr>license_expression = Some ''mit'', license_expression_spdx = None,
       matches = Some []\<rparr>) = 100"
  using detection_score_max [of "\<lparr>license_expression = Some ''mit'', license_expression_spdx = None,
       matches = Some [\<lparr>match_score = Some 40\<rparr>, \<lparr>match_score = Some 90\<rparr>]\<rparr>"]
    detection_score_max [of "\<lparr>license_expression = Some ''mit'', license_expression_spdx = None,
       matches = Some [\<lparr>match_score = Some 40\<rparr>, \<lparr>match_score = None\<rparr>]\<rparr>"]
    detection_score_max [of "\<lparr>license_expression = Some ''mit'', license_expression_spdx = None,
       matches = Some []\<rparr>"]
  by simp

section \<open>Properties of the problem classifier\<close>

lemma set_set_add: "set (set_add x xs) = insert x (set xs)"
  by (auto simp: set_add_def)

lemma set_add_idem: "set_add x (set_add x xs) = set_add x xs"
  by (simp add: set_add_def)


lemma length_set_add: "length (set_add x xs) = (if x \<in> set xs then length xs else Suc (length xs))"
  by (simp add: set_add_def)

text \<open>
  The loop over the table changes the set of a category exactly when the table has a
  fragment list for it with a fragment that occurs in the lower-cased key.
\<close>

lemma add_categories_apply:
  "add_categories tbl license_key t ps c =
     (if \<exists>ls. (c, ls) \<in> set tbl \<and> list_ex (\<lambda>pl. str_in pl (lower license_key)) ls
      then set_add t (ps c) else ps c)"
proof (induction tbl arbitrary: ps)
  case Nil
  show ?case by simp
next
  case (Cons entry rest)
  obtain c' ls' where entry: "entry = (c', ls')" by (cases entry)
  show ?case
    unfolding entry by (auto simp: Cons.IH set_add_idem)
qed

lemma low_confidence_not_in_table: "(Low_confidence, ls) \<notin> set problematic_licenses"
  by (simp add: problematic_licenses_def)

lemma add_to_problem_sets_apply:
  "add_to_problem_sets ps license_key file_path sc c =
     (if c = Low_confidence then
        (if sc < 70 then set_add (file_path, license_key, sc) (ps c) else ps c)
      else if \<exists>ls. (c, ls) \<in> set problematic_licenses \<and>
                   list_ex (\<lambda>pl. str_in pl (lower license_key)) ls
      then set_add (file_path, license_key, sc) (ps c) else ps c)"
  by (auto simp: add_to_problem_sets_def Let_def add_categories_apply low_confidence_not_in_table)

lemma str_in_trans: "str_in a b \<Longrightarrow> str_in b c \<Longrightarrow> str_in a c"
  unfolding str_in_def by (rule sublist_order.order_trans)

lemma gpl_3_0_in_agpl_3_0: "str_in GPL_3_0 AGPL_3_0"
  by code_simp

lemma lower_example_2: "lower ''gpl-2.0 AND agpl-3.0'' = ''gpl-2.0 and agpl-3.0''"
  by code_simp

text \<open>
  C1, as the claim states it, fails: a key can contain both \<^verbatim>\<open>gpl-2.0\<close> and a fragment
  of the \<^verbatim>\<open>agpl\<close> list. The license expression \<^verbatim>\<open>gpl-2.0 AND agpl-3.0\<close> contains
  \<^verbatim>\<open>gpl-2.0\<close>, and its triple is added to the \<^verbatim>\<open>agpl\<close> set.
\<close>

theorem gpl_2_0_not_agpl_counterexample:
  "str_in ''gpl-2.0'' (lower ''gpl-2.0 AND agpl-3.0'')
   \<and> add_to_problem_sets empty_problem_sets ''gpl-2.0 AND agpl-3.0'' ''src/a.c'' 100 Agpl
       = [(''src/a.c'', ''gpl-2.0 AND agpl-3.0'', 100)]
   \<and> add_to_problem_sets empty_problem_sets ''gpl-2.0 AND agpl-3.0'' ''src/a.c'' 100 Agpl
       \<noteq> empty_problem_sets Agpl"
  by (simp add: add_to_problem_sets_apply lower_example_2 problematic_licenses_def
      GPL_2_0_def GPL_3_0_def AGPL_3_0_def GPL_3_0_PLUS_def GPL_2_0_PLUS_def
      empty_problem_sets_def set_add_def str_in_def sublist_code)

text \<open>
  C1, amended. For every license key whose lower-case form contains \<^verbatim>\<open>gpl-2.0\<close>, the
  classifier adds the triple (file path, license key, score) to the \<^verbatim>\<open>gpl\<close> set and to the
  \<^verbatim>\<open>copyleft\<close> set; it adds it to the \<^verbatim>\<open>agpl\<close> set exactly when the lower-case key also
  contains \<^verbatim>\<open>agpl-3.0\<close> or \<^verbatim>\<open>gpl-3.0-plus\<close>, and leaves the \<^verbatim>\<open>agpl\<close> set as it was
  otherwise. In general, the triple is added to every category whose fragment list has a
  fragment that occurs in the lower-case key, and the set of any other category with a
  fragment list is unchanged.
\<close>

theorem gpl_2_0_classification:
  "(str_in ''gpl-2.0'' (lower license_key) \<longrightarrow>
      (file_path, license_key, sc)
        \<in> set (add_to_problem_sets ps license_key file_path sc Gpl)
      \<and> (file_path, license_key, sc)
        \<in> set (add_to_problem_sets ps license_key file_path sc Copyleft)
      \<and> add_to_problem_sets ps license_key file_path sc Agpl =
          (if str_in ''agpl-3.0'' (lower license_key) \<or> str_in ''gpl-3.0-plus'' (lower license_key)
           then set_add (file_path, license_key, sc) (ps Agpl) else ps Agpl))
   \<and> ((c, fragments) \<in> set problematic_licenses \<longrightarrow>
      add_to_problem_sets ps license_key file_path sc c =
        (if \<exists>fragment \<in> set fragments. str_in fragment (lower license_key)
         then set_add (file_path, license_key, sc) (ps c) else ps c)
      \<and> ((\<exists>fragment \<in> set fragments. str_in fragment (lower license_key)) \<longrightarrow>
           (file_path, license_key, sc)
             \<in> set (add_to_problem_sets ps license_key file_path sc c)))"
proof (intro conjI impI)
  assume h: "str_in ''gpl-2.0'' (lower license_key)"
  have g: "\<exists>ls. (Gpl, ls) \<in> set problematic_licenses
            \<and> list_ex (\<lambda>pl. str_in pl (lower license_key)) ls"
    using h by (intro exI [of _ "[GPL_2_0, GPL_3_0, GPL_2_0_PLUS, GPL_3_0_PLUS]"])
      (simp add: problematic_licenses_def GPL_2_0_def)
  have c: "\<exists>ls. (Copyleft, ls) \<in> set problematic_licenses
            \<and> list_ex (\<lambda>pl. str_in pl (lower license_key)) ls"
    using h by (intro exI [of _ "[GPL_2_0, GPL_3_0, LGPL_2_1, LGPL_3_0, AGPL_3_0]"])
      (simp add: problematic_licenses_def GPL_2_0_def)
  show "(file_path, license_key, sc)
        \<in> set (add_to_problem_sets ps license_key file_path sc Gpl)"
    using g by (simp add: add_to_problem_sets_apply set_set_add)
  show "(file_path, license_key, sc)
        \<in> set (add_to_problem_sets ps license_key file_path sc Copyleft)"
    using c by (simp add: add_to_problem_sets_apply set_set_add)
  have a: "(\<exists>ls. (Agpl, ls) \<in> set problematic_licenses
              \<and> list_ex (\<lambda>pl. str_in pl (lower license_key)) ls)
           \<longleftrightarrow> str_in ''agpl-3.0'' (lower license_key)
               \<or> str_in ''gpl-3.0-plus'' (lower license_key)"
    by (simp add: problematic_licenses_def AGPL_3_0_def GPL_3_0_PLUS_def)
  show "add_to_problem_sets ps license_key file_path sc Agpl =
          (if str_in ''agpl-3.0'' (lower license_key) \<or> str_in ''gpl-3.0-plus'' (lower license_key)
           then set_add (file_path, license_key, sc) (ps Agpl) else ps Agpl)"
    by (simp add: add_to_problem_sets_apply a)
next
  assume mem: "(c, fragments) \<in> set problematic_licenses"
  have "c \<noteq> Low_confidence"
    using mem low_confidence_not_in_table by auto
  moreover have "(c, ls) \<in> set problematic_licenses \<longleftrightarrow> ls = fragments" for ls
    using mem by (auto simp: problematic_licenses_def)
  ultimately show eq: "add_to_problem_sets ps license_key file_path sc c =
        (if \<exists>fragment \<in> set fragments. str_in fragment (lower license_key)
         then set_add (file_path, license_key, sc) (ps c) else ps c)"
    by (simp add: add_to_problem_sets_apply list_ex_iff)
  assume "\<exists>fragment \<in> set fragments. str_in fragment (lower license_key)"
  with eq show "(file_path, license_key, sc)
             \<in> set (add_to_problem_sets ps license_key file_path sc c)"
    by (simp add: set_set_add)
qed

theorem gpl_2_0_classification_witness:
  "str_in ''gpl-2.0'' (lower ''GPL-2.0-only'')
   \<and> (Gpl, [GPL_2_0, GPL_3_0, GPL_2_0_PLUS, GPL_3_0_PLUS]) \<in> set problematic_licenses
   \<and> map (add_to_problem_sets empty_problem_sets ''GPL-2.0-only'' ''src/a.c'' 100)
       [Gpl, Copyleft, Agpl]
     = [[(''src/a.c'', ''GPL-2.0-only'', 100)], [(''src/a.c'', ''GPL-2.0-only'', 100)], []]"
proof -
  have h: "str_in ''gpl-2.0'' (lower ''GPL-2.0-only'')"
    by code_simp
  have m: "(Gpl, [GPL_2_0, GPL_3_0, GPL_2_0_PLUS, GPL_3_0_PLUS]) \<in> set problematic_licenses"
    by (simp add: problematic_licenses_def)
  have n: "\<not> (str_in ''agpl-3.0'' (lower ''GPL-2.0-only'')
              \<or> str_in ''gpl-3.0-plus'' (lower ''GPL-2.0-only''))"
    by code_simp
  have e: "\<exists>fragment \<in> set [GPL_2_0, GPL_3_0, GPL_2_0_PLUS, GPL_3_0_PLUS].
             str_in fragment (lower ''GPL-2.0-only'')"
    using h by (simp add: GPL_2_0_def)
  have cl: "add_to_problem_sets empty_problem_sets ''GPL-2.0-only'' ''src/a.c'' 100 Copyleft
            = [(''src/a.c'', ''GPL-2.0-only'', 100)]"
    by (simp add: add_to_problem_sets_apply problematic_licenses_def GPL_2_0_def h
        empty_problem_sets_def set_add_def)
  from gpl_2_0_classification [of "''GPL-2.0-only''" "''src/a.c''" 100 empty_problem_sets
      Gpl "[GPL_2_0, GPL_3_0, GPL_2_0_PLUS, GPL_3_0_PLUS]"] h m n e cl
  show ?thesis
    by (simp add: empty_problem_sets_def set_add_def)
qed

text \<open>What the classifier has put into the set of a category after each of its loops.\<close>

lemma in_category_iff:
  "in_category c license_key sc \<longleftrightarrow>
     (if c = Low_confidence then sc < 70
      else \<exists>ls. (c, ls) \<in> set problematic_licenses \<and>
                (\<exists>fragment \<in> set ls. str_in fragment (lower license_key)))"
  by (auto simp: in_category_def list_ex_iff)

lemma set_add_to_problem_sets:
  "set (add_to_problem_sets ps license_key file_path sc c) =
     set (ps c) \<union> (if in_category c license_key sc then {(file_path, license_key, sc)} else {})"
  by (auto simp: add_to_problem_sets_apply in_category_iff set_set_add list_ex_iff)


lemma set_classify_detections:
  "set (classify_detections license_key es ps c) =
     set (ps c) \<union> {(entry_file e, license_key, entry_score e) | e.
                      e \<in> set es \<and> in_category c license_key (entry_score e)}"
proof (induction es arbitrary: ps)
  case Nil
  show ?case by simp
next
  case (Cons e es)
  show ?case
    by (auto simp: Cons.IH set_add_to_problem_sets)
qed


lemma set_classify_stats:
  "set (classify_stats stats ps c) =
     set (ps c) \<union> {(entry_file e, k, entry_score e) | k e.
                      \<exists>es. (k, es) \<in> set stats \<and> e \<in> set es \<and> in_category c k (entry_score e)}"
proof (induction stats arbitrary: ps)
  case Nil
  show ?case by simp
next
  case (Cons item stats)
  obtain k es where item: "item = (k, es)" by (cases item)
  show ?case
    unfolding item by (auto simp: Cons.IH set_classify_detections)
qed


lemma append_entries_map: "append_entries ts acc = acc @ map triple_entry ts"
  by (induction ts arbitrary: acc) simp_all

lemma identify_problematic_licenses_map:
  "identify_problematic_licenses it stats c =
     map triple_entry (it (classify_stats stats empty_problem_sets c))"
  by (simp add: identify_problematic_licenses_def convert_problem_sets_to_list_def
      append_entries_map)

lemma iter_ok_set: "iter_ok it \<Longrightarrow> set (it xs) = set xs"
  unfolding iter_ok_def by (metis mset_eq_setD)

lemma iter_ok_length: "iter_ok it \<Longrightarrow> length (it xs) = length xs"
  unfolding iter_ok_def by (metis mset_eq_length)

lemma iter_ok_id: "iter_ok id"
  by (simp add: iter_ok_def)


lemma set_identify_problematic_licenses:
  assumes "iter_ok it"
  shows "set (identify_problematic_licenses it stats c) =
     {triple_entry (entry_file e, k, entry_score e) | k e.
        \<exists>es. (k, es) \<in> set stats \<and> e \<in> set es \<and> in_category c k (entry_score e)}"
proof -
  have "set (identify_problematic_licenses it stats c) =
      triple_entry ` set (classify_stats stats empty_problem_sets c)"
    by (simp add: identify_problematic_licenses_map iter_ok_set [OF assms])
  also have "\<dots> = triple_entry ` {(entry_file e, k, entry_score e) | k e.
        \<exists>es. (k, es) \<in> set stats \<and> e \<in> set es \<and> in_category c k (entry_score e)}"
    by (simp add: set_classify_stats empty_problem_sets_def)
  also have "\<dots> = {triple_entry (entry_file e, k, entry_score e) | k e.
        \<exists>es. (k, es) \<in> set stats \<and> e \<in> set es \<and> in_category c k (entry_score e)}"
    by blast
  finally show ?thesis .
qed

lemma agpl_in_categories:
  assumes "str_in ''agpl-3.0'' (lower license_key)"
  shows "in_category Gpl license_key sc" "in_category Agpl license_key sc"
    "in_category Copyleft license_key sc" "in_category Commercial_unfriendly license_key sc"
proof -
  have g: "str_in ''gpl-3.0'' (lower license_key)"
    using gpl_3_0_in_agpl_3_0 assms unfolding GPL_3_0_def AGPL_3_0_def by (rule str_in_trans)
  show "in_category Gpl license_key sc"
    unfolding in_category_iff using g
    by (simp add: problematic_licenses_def GPL_3_0_def)
  show "in_category Agpl license_key sc"
    unfolding in_category_iff using assms
    by (simp add: problematic_licenses_def AGPL_3_0_def)
  show "in_category Copyleft license_key sc"
    unfolding in_category_iff using assms
    by (simp add: problematic_licenses_def AGPL_3_0_def)
  show "in_category Commercial_unfriendly license_key sc"
    unfolding in_category_iff using assms
    by (simp add: problematic_licenses_def AGPL_3_0_def)
qed

lemma gpl_recommendation:
  "problems Gpl \<noteq> [] \<Longrightarrow>
     hd (generate_recommendations problems) =
       \<lparr>severity = ''high'', rec_category = ''gpl'',
        message = ''GPL licenses detected. Review compatibility with your project license.'',
        affected_files = length (problems Gpl)\<rparr>"
  by (simp add: generate_recommendations_def Let_def)

text \<open>
  C10. Classification is by substring, and \<^verbatim>\<open>gpl-3.0\<close>, a fragment of the \<^verbatim>\<open>gpl\<close> list,
  occurs in \<^verbatim>\<open>agpl-3.0\<close>. So for every license key whose lower-case form contains
  \<^verbatim>\<open>agpl-3.0\<close>, the classifier adds the triple to the sets of \<^verbatim>\<open>agpl\<close>, \<^verbatim>\<open>copyleft\<close>,
  \<^verbatim>\<open>commercial_unfriendly\<close> and also \<^verbatim>\<open>gpl\<close>; the \<^verbatim>\<open>gpl\<close> set grows by one when the triple
  is new to it. In a whole run, every occurrence of such a key in the tally is an entry
  of the \<^verbatim>\<open>gpl\<close> problem list, and the recommendations then start with the \<^verbatim>\<open>gpl\<close> entry,
  whose count is the length of that list.
\<close>

theorem agpl_3_0_also_gpl:
  assumes "str_in ''agpl-3.0'' (lower license_key)"
  shows "(\<forall>c \<in> {Agpl, Copyleft, Commercial_unfriendly, Gpl}.
            (file_path, license_key, sc)
              \<in> set (add_to_problem_sets ps license_key file_path sc c))
         \<and> ((file_path, license_key, sc) \<notin> set (ps Gpl) \<longrightarrow>
              length (add_to_problem_sets ps license_key file_path sc Gpl)
                = Suc (length (ps Gpl)))
         \<and> (iter_ok it \<and> (license_key, es) \<in> set stats \<and> e \<in> set es \<longrightarrow>
              \<lparr>entry_file = entry_file e, entry_name = license_key, entry_score = entry_score e\<rparr>
                \<in> set (identify_problematic_licenses it stats Gpl)
              \<and> hd (generate_recommendations (identify_problematic_licenses it stats)) =
                  \<lparr>severity = ''high'', rec_category = ''gpl'',
                   message =
                     ''GPL licenses detected. Review compatibility with your project license.'',
                   affected_files = length (identify_problematic_licenses it stats Gpl)\<rparr>)"
proof (intro conjI impI)
  show "\<forall>c \<in> {Agpl, Copyleft, Commercial_unfriendly, Gpl}.
            (file_path, license_key, sc)
              \<in> set (add_to_problem_sets ps license_key file_path sc c)"
    by (simp add: set_add_to_problem_sets agpl_in_categories [OF assms])
next
  assume "(file_path, license_key, sc) \<notin> set (ps Gpl)"
  moreover have "\<exists>ls. (Gpl, ls) \<in> set problematic_licenses \<and>
      list_ex (\<lambda>pl. str_in pl (lower license_key)) ls"
    using agpl_in_categories(1) [OF assms, of sc] by (simp add: in_category_iff list_ex_iff)
  ultimately show "length (add_to_problem_sets ps license_key file_path sc Gpl)
      = Suc (length (ps Gpl))"
    by (simp add: add_to_problem_sets_apply length_set_add)
next
  assume run: "iter_ok it \<and> (license_key, es) \<in> set stats \<and> e \<in> set es"
  have "triple_entry (entry_file e, license_key, entry_score e)
      \<in> set (identify_problematic_licenses it stats Gpl)"
    using run agpl_in_categories(1) [OF assms]
    by (auto simp: set_identify_problematic_licenses)
  then show mem: "\<lparr>entry_file = entry_file e, entry_name = license_key,
        entry_score = entry_score e\<rparr> \<in> set (identify_problematic_licenses it stats Gpl)"
    by (simp add: triple_entry_def)
  from mem have "identify_problematic_licenses it stats Gpl \<noteq> []"
    by auto
  then show "hd (generate_recommendations (identify_problematic_licenses it stats)) =
      \<lparr>severity = ''high'', rec_category = ''gpl'',
       message = ''GPL licenses detected. Review compatibility with your project license.'',
       affected_files = length (identify_problematic_licenses it stats Gpl)\<rparr>"
    by (rule gpl_recommendation)
qed

theorem agpl_3_0_also_gpl_witness:
  "str_in ''agpl-3.0'' (lower ''AGPL-3.0-or-later'')
   \<and> (''src/a.c'', ''AGPL-3.0-or-later'', 100)
       \<in> set (add_to_problem_sets empty_problem_sets ''AGPL-3.0-or-later'' ''src/a.c'' 100 Agpl)
   \<and> (''src/a.c'', ''AGPL-3.0-or-later'', 100)
       \<in> set (add_to_problem_sets empty_problem_sets ''AGPL-3.0-or-later'' ''src/a.c'' 100
                Copyleft)
   \<and> (''src/a.c'', ''AGPL-3.0-or-later'', 100)
       \<in> set (add_to_problem_sets empty_problem_sets ''AGPL-3.0-or-later'' ''src/a.c'' 100
                Commercial_unfriendly)
   \<and> (''src/a.c'', ''AGPL-3.0-or-later'', 100)
       \<in> set (add_to_problem_sets empty_problem_sets ''AGPL-3.0-or-later'' ''src/a.c'' 100 Gpl)
   \<and> length (add_to_problem_sets empty_problem_sets ''AGPL-3.0-or-later'' ''src/a.c'' 100 Gpl) = 1
   \<and> iter_ok id
   \<and> \<lparr>entry_file = ''src/a.c'', entry_name = ''AGPL-3.0-or-later'', entry_score = 100\<rparr>
       \<in> set (identify_problematic_licenses id
                [(''AGPL-3.0-or-later'',
                  [\<lparr>entry_file = ''src/a.c'', entry_name = ''AGPL-3.0-or-later'',
                    entry_score = 100\<rparr>])] Gpl)
   \<and> rec_category (hd (generate_recommendations (identify_problematic_licenses id
                [(''AGPL-3.0-or-later'',
                  [\<lparr>entry_file = ''src/a.c'', entry_name = ''AGPL-3.0-or-later'',
                    entry_score = 100\<rparr>])]))) = ''gpl''"
proof -
  have h: "str_in ''agpl-3.0'' (lower ''AGPL-3.0-or-later'')"
    by code_simp
  note t = agpl_3_0_also_gpl [OF h, of "''src/a.c''" 100 empty_problem_sets id
      "[\<lparr>entry_file = ''src/a.c'', entry_name = ''AGPL-3.0-or-later'', entry_score = 100\<rparr>]"
      "[(''AGPL-3.0-or-later'',
         [\<lparr>entry_file = ''src/a.c'', entry_name = ''AGPL-3.0-or-later'', entry_score = 100\<rparr>])]"
      "\<lparr>entry_file = ''src/a.c'', entry_name = ''AGPL-3.0-or-later'', entry_score = 100\<rparr>"]
  from t h show ?thesis
    by (simp add: empty_problem_sets_def iter_ok_id)
qed

section \<open>Properties of the issue scanner\<close>

lemma low_confidence_loop_append:
  "low_confidence_loop ls file_path issues =
     issues @ map (\<lambda>lic. \<lparr>issue_file = file_path, issue_type = ''low_confidence_license'',
                           issue_details = Text (''License: '' @ key lic @ '', Score: '' @
                                                 show_int (score lic))\<rparr>)
                (filter (\<lambda>lic. score lic < 50) ls)"
  by (induction ls arbitrary: issues) simp_all

lemma file_issues_append: "file_issues fi issues = issues @ file_issues fi []"
  by (simp add: file_issues_def Let_def low_confidence_loop_append
      split: option.splits list.splits)

lemma issues_loop_concat:
  "issues_loop fs issues = issues @ concat (map (\<lambda>fi. file_issues fi []) fs)"
proof (induction fs arbitrary: issues)
  case Nil
  show ?case by simp
next
  case (Cons fi fs)
  show ?case
    by (simp add: Cons.IH file_issues_append [of fi issues])
qed

lemma file_issues_low_confidence:
  "filter (\<lambda>i. issue_type i = ''low_confidence_license'') (file_issues fi []) =
     map (\<lambda>lic. \<lparr>issue_file = get_path fi, issue_type = ''low_confidence_license'',
                  issue_details = Text (''License: '' @ key lic @ '', Score: '' @
                                        show_int (score lic))\<rparr>)
       (filter (\<lambda>lic. score lic < 50) (extract_licenses_from_file fi))"
  by (simp add: file_issues_def Let_def low_confidence_loop_append filter_map comp_def
      split: option.splits list.splits)

text \<open>
  C2. The two thresholds are different and both strict. The issue scanner emits a
  \<^verbatim>\<open>low_confidence_license\<close> issue exactly for the findings with score below 50: the issues
  of that type are, file by file and finding by finding, those of the findings with
  \<open>score < 50\<close>. The classifier adds the triple to the \<^verbatim>\<open>low_confidence\<close> set exactly when
  the score is below 70, whatever the key. A finding with key \<^verbatim>\<open>mit\<close> and score 65
  gets into the \<^verbatim>\<open>low_confidence\<close> set and no other, and produces no issue.
\<close>

theorem two_thresholds:
  "filter (\<lambda>i. issue_type i = ''low_confidence_license'')
       (fst (get_files_with_issues \<lparr>files = Some fs\<rparr> out)) =
     concat (map (\<lambda>fi.
        map (\<lambda>lic. \<lparr>issue_file = get_path fi, issue_type = ''low_confidence_license'',
                     issue_details = Text (''License: '' @ key lic @ '', Score: '' @
                                           show_int (score lic))\<rparr>)
          (filter (\<lambda>lic. score lic < 50) (extract_licenses_from_file fi))) fs)
   \<and> add_to_problem_sets ps license_key file_path sc Low_confidence =
       (if sc < 70 then set_add (file_path, license_key, sc) (ps Low_confidence)
        else ps Low_confidence)
   \<and> map (add_to_problem_sets empty_problem_sets ''mit'' ''src/a.c'' 65) problem_keys =
       [[], [], [], [], [], [(''src/a.c'', ''mit'', 65)]]
   \<and> fst (get_files_with_issues
            \<lparr>files = Some [\<lparr>path = Some ''src/a.c'', scan_errors = None,
                             detected_license_expression = None, license_detections = None,
                             licenses = Some [\<lparr>lic_key = Some ''mit'', lic_name = None,
                                               lic_score = Some 65\<rparr>]\<rparr>]\<rparr> []) = []"
proof (intro conjI)
  show "filter (\<lambda>i. issue_type i = ''low_confidence_license'')
       (fst (get_files_with_issues \<lparr>files = Some fs\<rparr> out)) =
     concat (map (\<lambda>fi.
        map (\<lambda>lic. \<lparr>issue_file = get_path fi, issue_type = ''low_confidence_license'',
                     issue_details = Text (''License: '' @ key lic @ '', Score: '' @
                                           show_int (score lic))\<rparr>)
          (filter (\<lambda>lic. score lic < 50) (extract_licenses_from_file fi))) fs)"
    by (simp add: get_files_with_issues_def issues_loop_concat filter_concat comp_def
        file_issues_low_confidence)
  show "add_to_problem_sets ps license_key file_path sc Low_confidence =
       (if sc < 70 then set_add (file_path, license_key, sc) (ps Low_confidence)
        else ps Low_confidence)"
    by (simp add: add_to_problem_sets_apply)
  show "map (add_to_problem_sets empty_problem_sets ''mit'' ''src/a.c'' 65) problem_keys =
       [[], [], [], [], [], [(''src/a.c'', ''mit'', 65)]]"
    by code_simp
  show "fst (get_files_with_issues
            \<lparr>files = Some [\<lparr>path = Some ''src/a.c'', scan_errors = None,
                             detected_license_expression = None, license_detections = None,
                             licenses = Some [\<lparr>lic_key = Some ''mit'', lic_name = None,
                                               lic_score = Some 65\<rparr>]\<rparr>]\<rparr> []) = []"
    by code_simp
qed

section \<open>Properties of the report and of the export\<close>

text \<open>
  C7. The recommendations of the export are those of \<^verbatim>\<open>generate_recommendations\<close> for the
  problem lists of the run. They have one entry for each of the categories \<^verbatim>\<open>gpl\<close>,
  \<^verbatim>\<open>agpl\<close>, \<^verbatim>\<open>unknown\<close>, in this order, whose problem list is not empty, with severity
  \<^verbatim>\<open>high\<close>, \<^verbatim>\<open>critical\<close>, \<^verbatim>\<open>medium\<close> respectively, and \<^verbatim>\<open>affected_files\<close> the length of
  the problem list of the category; a category with an empty list has no entry.
\<close>

theorem recommendations_per_category:
  "map (\<lambda>r. (rec_category r, severity r, affected_files r)) (generate_recommendations problems) =
     map (\<lambda>(c, sev). (category_name c, sev, length (problems c)))
       (filter (\<lambda>(c, sev). problems c \<noteq> [])
          [(Gpl, ''high''), (Agpl, ''critical''), (Unknown, ''medium'')])
   \<and> map message (generate_recommendations problems) =
     map snd (filter (\<lambda>(c, m). problems c \<noteq> [])
       [(Gpl, ''GPL licenses detected. Review compatibility with your project license.''),
        (Agpl, ''AGPL licenses detected. Network copyleft requirements apply.''),
        (Unknown, ''Unknown licenses detected. Manual review required.'')])
   \<and> recommendations (build_detailed_report rt json_file data issues) =
       generate_recommendations
         (identify_problematic_licenses (set_iter rt) (fst (analyze_licenses data)))"
proof (intro conjI)
  show "map (\<lambda>r. (rec_category r, severity r, affected_files r))
      (generate_recommendations problems) =
     map (\<lambda>(c, sev). (category_name c, sev, length (problems c)))
       (filter (\<lambda>(c, sev). problems c \<noteq> [])
          [(Gpl, ''high''), (Agpl, ''critical''), (Unknown, ''medium'')])"
    by (simp add: generate_recommendations_def Let_def)
  show "map message (generate_recommendations problems) =
     map snd (filter (\<lambda>(c, m). problems c \<noteq> [])
       [(Gpl, ''GPL licenses detected. Review compatibility with your project license.''),
        (Agpl, ''AGPL licenses detected. Network copyleft requirements apply.''),
        (Unknown, ''Unknown licenses detected. Manual review required.'')])"
    by (simp add: generate_recommendations_def Let_def)
  show "recommendations (build_detailed_report rt json_file data issues) =
       generate_recommendations
         (identify_problematic_licenses (set_iter rt) (fst (analyze_licenses data)))"
    by (simp add: build_detailed_report_def Let_def split: prod.splits)
qed






lemma show_nat_0: "show_nat 0 = ''0''"
  by code_simp








section \<open>Properties of the whole program\<close>

text \<open>
  C8. When the program is called with one argument, a path that does not exist on disk,
  it exits with status 1 after printing one line, the error message with the missing
  path in it, and the disk is left as it was: \<^verbatim>\<open>license_analysis_detailed.json\<close> is neither
  created nor changed. (\<^verbatim>\<open>load_data\<close> itself also exits with status 1 and a message with
  the path when the file is not there.)
\<close>

theorem missing_input_file:
  "length argv = 2 \<and> disk w (argv ! 1) = None \<longrightarrow>
     fst (main rt argv w) = 1
     \<and> printed (snd (main rt argv w)) =
         printed w @ [cross_mark @ '' Error: File '' @ argv ! 1 @ '' does not exist'']
     \<and> disk (snd (main rt argv w)) = disk w
     \<and> load_data rt (argv ! 1) w =
         Inl (1, w\<lparr>printed := printed w @
                      [cross_mark @ '' Error: File '' @ argv ! 1 @ '' not found'']\<rparr>)"
  by (simp add: main_def load_data_def Let_def print_def)

theorem missing_input_file_witness:
  "length [''parse_scancode_results.py'', ''missing.json''] = 2
   \<and> disk \<lparr>printed = [], disk = Map.empty\<rparr>
        ([''parse_scancode_results.py'', ''missing.json''] ! 1) = None
   \<and> fst (main example_runtime [''parse_scancode_results.py'', ''missing.json'']
            \<lparr>printed = [], disk = Map.empty\<rparr>) = 1
   \<and> printed (snd (main example_runtime [''parse_scancode_results.py'', ''missing.json'']
                     \<lparr>printed = [], disk = Map.empty\<rparr>)) =
       [cross_mark @ '' Error: File missing.json does not exist'']
   \<and> disk (snd (main example_runtime [''parse_scancode_results.py'', ''missing.json'']
                  \<lparr>printed = [], disk = Map.empty\<rparr>)) = Map.empty"
  using missing_input_file [of "[''parse_scancode_results.py'', ''missing.json'']"
      "\<lparr>printed = [], disk = Map.empty\<rparr>" example_runtime]
  by simp

lemma identify_problematic_licenses_empty:
  "iter_ok it \<Longrightarrow> identify_problematic_licenses it [] c = []"
  using iter_ok_length [of it "[]"]
  by (simp add: identify_problematic_licenses_map empty_problem_sets_def)

lemma generate_report_empty:
  assumes "iter_ok (set_iter rt)"
  shows "generate_report rt json_file \<lparr>files = Some []\<rparr> out =
     out @ [replicate 80 (CHR ''=''),
            magnifying_glass @ '' SCANCODE LICENSE ANALYSIS REPORT'',
            replicate 80 (CHR ''=''),
            file_folder @ '' Analyzed file: '' @ json_file,
            calendar @ '' Generated on: '' @ strftime_now rt,
            [],
            bar_chart @ '' BASIC STATISTICS'',
            ''   Total files scanned: 0'',
            [],
            clipboard @ '' LICENSE SUMMARY'',
            ''   Unique licenses detected: 0'',
            ''   Total license detections: 0'',
            [],
            trophy @ '' TOP 10 MOST COMMON LICENSES'',
            [],
            warning_sign @ ''  POTENTIAL LICENSE ISSUES'',
            replicate 40 (CHR ''-''),
            ''   '' @ check_mark @ '' No major license issues detected!'',
            [],
            light_bulb @ '' RECOMMENDATIONS'',
            replicate 40 (CHR ''-''),
            CHR 0x0A # replicate 80 (CHR ''='')]"
  by (simp add: generate_report_def print_report_header_def get_files_with_issues_def
      print_basic_statistics_def count_files_def analyze_licenses_def
      print_license_summary_def most_common_def print_potential_issues_def
      print_scan_errors_def print_recommendations_def problem_keys_def
      identify_problematic_licenses_empty [OF assms] show_nat_0 print_def Let_def)

lemma build_detailed_report_empty:
  assumes "iter_ok (set_iter rt)"
  shows "build_detailed_report rt json_file \<lparr>files = Some []\<rparr> [] =
     \<lparr>report_metadata =
        \<lparr>source_file = json_file, analysis_date = isoformat_now rt, total_files = 0,
         total_licenses = 0, total_license_detections = 0\<rparr>,
      license_statistics = [],
      report_problems = [(Copyleft, []), (Gpl, []), (Agpl, []), (Commercial_unfriendly, []),
                         (Unknown, []), (Low_confidence, [])],
      scan_issues = [],
      recommendations = []\<rparr>"
  by (simp add: build_detailed_report_def analyze_licenses_def count_files_def
      problem_keys_def generate_recommendations_def
      identify_problematic_licenses_empty [OF assms] Let_def)

text \<open>
  C9. For an input document whose list of files is empty, the run succeeds (exit status
  0). The report has the lines \<^verbatim>\<open>Total files scanned: 0\<close> and
  \<^verbatim>\<open>No major license issues detected!\<close>; in full, the run prints the lines below. The
  export written to \<^verbatim>\<open>license_analysis_detailed.json\<close> has metadata counts that are all 0,
  empty license statistics, an empty list for each problem category, no issue and no
  recommendation.
\<close>

theorem empty_files_run:
  assumes "iter_ok (set_iter rt)" "length argv = 2" "disk w (argv ! 1) = Some text"
    "json_load rt text = Inr \<lparr>files = Some []\<rparr>"
  shows "fst (main rt argv w) = 0
    \<and> ''   Total files scanned: 0'' \<in> set (printed (snd (main rt argv w)))
    \<and> ''   '' @ check_mark @ '' No major license issues detected!''
        \<in> set (printed (snd (main rt argv w)))
    \<and> printed (snd (main rt argv w)) =
        printed w @
          [check_mark @ '' Successfully loaded '' @ argv ! 1,
           replicate 80 (CHR ''=''),
           magnifying_glass @ '' SCANCODE LICENSE ANALYSIS REPORT'',
           replicate 80 (CHR ''=''),
           file_folder @ '' Analyzed file: '' @ argv ! 1,
           calendar @ '' Generated on: '' @ strftime_now rt,
           [],
           bar_chart @ '' BASIC STATISTICS'',
           ''   Total files scanned: 0'',
           [],
           clipboard @ '' LICENSE SUMMARY'',
           ''   Unique licenses detected: 0'',
           ''   Total license detections: 0'',
           [],
           trophy @ '' TOP 10 MOST COMMON LICENSES'',
           [],
           warning_sign @ ''  POTENTIAL LICENSE ISSUES'',
           replicate 40 (CHR ''-''),
           ''   '' @ check_mark @ '' No major license issues detected!'',
           [],
           light_bulb @ '' RECOMMENDATIONS'',
           replicate 40 (CHR ''-''),
           CHR 0x0A # replicate 80 (CHR ''=''),
           page_facing_up @ '' Detailed report exported to: license_analysis_detailed.json'']
    \<and> disk (snd (main rt argv w)) =
        (disk w)(''license_analysis_detailed.json'' \<mapsto>
           json_dump rt
             \<lparr>report_metadata =
                \<lparr>source_file = argv ! 1, analysis_date = isoformat_now rt, total_files = 0,
                 total_licenses = 0, total_license_detections = 0\<rparr>,
              license_statistics = [],
              report_problems =
                [(Copyleft, []), (Gpl, []), (Agpl, []), (Commercial_unfriendly, []),
                 (Unknown, []), (Low_confidence, [])],
              scan_issues = [],
              recommendations = []\<rparr>)"
proof -
  have run: "main rt argv w =
      (0, export_detailed_report rt (argv ! 1) \<lparr>files = Some []\<rparr>
            ''license_analysis_detailed.json''
            (w\<lparr>printed := generate_report rt (argv ! 1) \<lparr>files = Some []\<rparr>
                              (printed w @ [check_mark @ '' Successfully loaded '' @ argv ! 1])\<rparr>))"
    using assms(2-4) by (simp add: main_def load_data_def Let_def print_def)
  have out: "printed (snd (main rt argv w)) =
      generate_report rt (argv ! 1) \<lparr>files = Some []\<rparr>
          (printed w @ [check_mark @ '' Successfully loaded '' @ argv ! 1])
        @ [page_facing_up @ '' Detailed report exported to: license_analysis_detailed.json'']"
    by (simp add: run export_detailed_report_def get_files_with_issues_def Let_def print_def)
  have dsk: "disk (snd (main rt argv w)) =
      (disk w)(''license_analysis_detailed.json'' \<mapsto>
         json_dump rt (build_detailed_report rt (argv ! 1) \<lparr>files = Some []\<rparr> []))"
    by (simp add: run export_detailed_report_def get_files_with_issues_def Let_def)
  have status: "fst (main rt argv w) = 0"
    by (simp add: run)
  show ?thesis
    by (simp add: status out dsk generate_report_empty [OF assms(1)]
        build_detailed_report_empty [OF assms(1)])
qed

lemma example_runtime_loads_empty:
  "json_load example_runtime empty_files_text = Inr \<lparr>files = Some []\<rparr>"
  by (simp add: example_runtime_def)

theorem empty_files_run_witness:
  "iter_ok (set_iter example_runtime)
   \<and> length [''parse_scancode_results.py'', ''scan.json''] = 2
   \<and> disk \<lparr>printed = [], disk = [''scan.json'' \<mapsto> empty_files_text]\<rparr>
        ([''parse_scancode_results.py'', ''scan.json''] ! 1) = Some empty_files_text
   \<and> json_load example_runtime empty_files_text = Inr \<lparr>files = Some []\<rparr>
   \<and> fst (main example_runtime [''parse_scancode_results.py'', ''scan.json'']
            \<lparr>printed = [], disk = [''scan.json'' \<mapsto> empty_files_text]\<rparr>) = 0
   \<and> ''   Total files scanned: 0''
       \<in> set (printed (snd (main example_runtime [''parse_scancode_results.py'', ''scan.json'']
                  \<lparr>printed = [], disk = [''scan.json'' \<mapsto> empty_files_text]\<rparr>)))
   \<and> ''   '' @ check_mark @ '' No major license issues detected!''
       \<in> set (printed (snd (main example_runtime [''parse_scancode_results.py'', ''scan.json'']
                  \<lparr>printed = [], disk = [''scan.json'' \<mapsto> empty_files_text]\<rparr>)))"
proof -
  have a: "iter_ok (set_iter example_runtime)"
    by (simp add: example_runtime_def iter_ok_id)
  have b: "length [''parse_scancode_results.py'', ''scan.json''] = 2"
    by simp
  have c: "disk \<lparr>printed = [], disk = [''scan.json'' \<mapsto> empty_files_text]\<rparr>
        ([''parse_scancode_results.py'', ''scan.json''] ! 1) = Some empty_files_text"
    by simp
  note t = empty_files_run [OF a b c example_runtime_loads_empty]
  from t a b c example_runtime_loads_empty show ?thesis
    by blast
qed

end
